theory Spec2Isabelle
  imports Complex_Main "HOL-Library.Word"
begin

text \<open>
  A model of the chat components of the repository (\<open>ResizableChatBot\<close> in three
  variants and \<open>ChatBot\<close>): the component state, \<open>handleSubmit\<close> in its two halves
  around the \<open>await\<close> of \<open>fetch\<close>, the resize handlers and the visibility effect, as
  functions on an explicit state, and the properties the specification claims of them.

  React is modelled as follows. A handler runs on the state of the last render, which is
  the current state: React renders after every discrete event before the next one is
  delivered. A state setter called with an updater function is applied to the state of the
  moment it runs. A function that a handler registers outside React (a listener on
  \<open>document\<close>) keeps the variables of the render that created it.
\<close>

section \<open>JavaScript strings\<close>

text \<open>
  A JavaScript string is a sequence of 16-bit code units. String literals of the source
  that are plain ASCII are written with \<open>lit\<close>; every other character of the source is
  written as its UTF-16 code units.
\<close>

type_synonym jsstring = "16 word list"

definition lit :: "string \<Rightarrow> jsstring" where
  "lit s = map (\<lambda>c. of_char c) s"

text \<open>
  \<open>String.prototype.trim\<close> removes the ECMAScript WhiteSpace and LineTerminator code
  points from both ends; all of them are single code units.
\<close>

definition isWhiteSpace :: "16 word \<Rightarrow> bool" where
  "isWhiteSpace c =
     (c = 0x0009 \<or> c = 0x000A \<or> c = 0x000B \<or> c = 0x000C \<or> c = 0x000D \<or> c = 0x0020 \<or>
      c = 0x00A0 \<or> c = 0x1680 \<or> (0x2000 \<le> c \<and> c \<le> 0x200A) \<or> c = 0x2028 \<or>
      c = 0x2029 \<or> c = 0x202F \<or> c = 0x205F \<or> c = 0x3000 \<or> c = 0xFEFF)"

definition trim :: "jsstring \<Rightarrow> jsstring" where
  "trim s = rev (dropWhile isWhiteSpace (rev (dropWhile isWhiteSpace s)))"

text \<open>\<open>String.prototype.startsWith\<close> and \<open>String.prototype.includes\<close>, on any alphabet.\<close>

fun startsWith :: "'a list \<Rightarrow> 'a list \<Rightarrow> bool" where
  "startsWith s [] = True"
| "startsWith [] (p # ps) = False"
| "startsWith (c # cs) (p # ps) = (c = p \<and> startsWith cs ps)"

fun str_includes :: "'a list \<Rightarrow> 'a list \<Rightarrow> bool" where
  "str_includes [] sub = (sub = [])"
| "str_includes (c # cs) sub = (startsWith (c # cs) sub \<or> str_includes cs sub)"

text \<open>The decimal rendering of a non-negative integer, as a template literal produces it.\<close>

fun show_nat :: "nat \<Rightarrow> jsstring" where
  "show_nat n =
     (if n < 10 then [of_nat (48 + n)] else show_nat (n div 10) @ [of_nat (48 + n mod 10)])"

section \<open>The transcript and the component state\<close>

datatype Role = User | Assistant

record Message =
  role :: Role
  content :: jsstring

text \<open>The value \<open>toast.loading\<close> returns: \<open>string | number\<close> in the source.\<close>

datatype ToastId = IdNumber nat | IdString jsstring

fun truthyId :: "ToastId \<Rightarrow> bool" where
  "truthyId (IdNumber n) = (n \<noteq> 0)"
| "truthyId (IdString t) = (t \<noteq> [])"

text \<open>
  The state of one mounted \<open>ResizableChatBot\<close>: its six \<open>useState\<close> cells, its two number
  refs, and what the runtime holds for it: the \<open>isVisible\<close> prop of the last render, the
  \<open>handleMouseMove\<close>/\<open>handleMouseUp\<close> pairs registered on \<open>document\<close>, and the submissions
  whose \<open>fetch\<close> has not settled. A registered pair is a closure of the render that ran
  \<open>handleMouseDown\<close>; the only variable of that render it reads is \<open>isResizing\<close>, so the
  pair is represented by the value of \<open>isResizing\<close> it captured. A pending submission is
  represented by the one local it reads after the \<open>await\<close>, \<open>loadingToastId\<close>.
  The \<open>ChatBot\<close> component has the first three cells only and the same \<open>handleSubmit\<close>.
\<close>

record ChatState =
  messages :: "Message list"
  input :: jsstring
  isProcessing :: bool
  isExpanded :: bool
  chatHeight :: int
  isResizing :: bool
  startYRef :: int
  startHeightRef :: int
  isVisible :: bool
  listeners :: "bool list"
  inflight :: "ToastId list"

definition thinking :: jsstring where
  "thinking = lit ''Thinking...''"

definition greeting :: Message where
  "greeting = \<lparr>role = Assistant, content =
     lit ''Hello! I can answer questions about the PDF content. What would you like to know?''\<rparr>"

definition initial :: ChatState where
  "initial = \<lparr>messages = [greeting], input = [], isProcessing = False, isExpanded = False,
     chatHeight = 400, isResizing = False, startYRef = 0, startHeightRef = 0,
     isVisible = False, listeners = [], inflight = []\<rparr>"

section \<open>The request\<close>

text \<open>
  The four components of the repository differ in the system prompt, the temperature and
  the token limit: \<open>ResizableChatBot\<close> of \<open>part_000\<close>, \<open>ChatBot\<close> (the second document of
  \<open>FloatingChatButton.tsx\<close>), and the two \<open>ResizableChatBot\<close> documents of \<open>part_001\<close>.
\<close>

datatype Variant = Part000 | ChatBot | Part001a | Part001b

definition prompt_before_Part000 :: jsstring where
  "prompt_before_Part000 =
    lit ''You are a helpful teacher that answers questions related to PDF content using structured, well-formatted responses.\<newline>'' @
    lit ''\<newline>'' @ lit ''FORMATTING REQUIREMENTS - STRICTLY FOLLOW:\<newline>'' @
    lit ''\<newline>'' @
    lit ''1. **Always start with a title using <h3><strong>Title: [Your Topic]</strong></h3>**\<newline>'' @
    lit ''\<newline>'' @ lit ''2. **Use EMOJI BULLET POINTS for all lists:**\<newline>'' @
    lit ''   - Main points: Use '' @ [0xD83D, 0xDD39] @ lit '' or '' @ [0xD83D, 0xDCCC] @
    lit '' or '' @ [0x2B50] @ lit '' \<newline>'' @ lit ''   - Sub-points: Use '' @
    [0xD83D, 0xDD38] @ lit '' or '' @ [0x27A4] @ lit '' or '' @ [0x25AA, 0xFE0F] @
    lit ''\<newline>'' @ lit ''   - Steps: Use 1'' @ [0xFE0F, 0x20E3] @ lit '' 2'' @
    [0xFE0F, 0x20E3] @ lit '' 3'' @ [0xFE0F, 0x20E3] @ lit '' or '' @ [0xD83D, 0xDCDD] @
    lit '' '' @ [0xD83D, 0xDCCB] @ lit '' '' @ [0x2705] @ lit ''\<newline>'' @ lit ''\<newline>'' @
    lit ''3. **FORCE BULLET POINT FORMAT - Never use regular text paragraphs:**\<newline>'' @
    lit ''   - Always use <ul><li> tags with emoji bullets\<newline>'' @
    lit ''   - Add proper spacing with <br/> tags\<newline>'' @
    lit ''   - Use <strong> for emphasis\<newline>'' @ lit ''\<newline>'' @
    lit ''4. **Example structure to ALWAYS follow:**\<newline>'' @
    lit ''   <h3><strong>Title: Your Response Topic</strong></h3>\<newline>'' @
    lit ''   <ul>\<newline>'' @ lit ''   <li>'' @ [0xD83D, 0xDD39] @
    lit '' <strong>Main Point 1</strong>:<br/>\<newline>'' @ lit ''   '' @ [0xD83D, 0xDD38] @
    lit '' Sub-point explanation<br/>\<newline>'' @ lit ''   '' @ [0xD83D, 0xDD38] @
    lit '' Another sub-point with details</li>\<newline>'' @ lit ''   <br/>\<newline>'' @
    lit ''   <li>'' @ [0xD83D, 0xDCCC] @ lit '' <strong>Main Point 2</strong>:<br/>\<newline>'' @
    lit ''   '' @ [0xD83D, 0xDD38] @ lit '' Clear explanation in simple terms<br/>\<newline>'' @
    lit ''   '' @ [0xD83D, 0xDD38] @ lit '' Real-life example or application</li>\<newline>'' @
    lit ''   </ul>\<newline>'' @ lit ''\<newline>'' @
    lit ''5. **For numbered steps, use emoji numbers:**\<newline>'' @ lit ''   <ol>\<newline>'' @
    lit ''   <li>1'' @ [0xFE0F, 0x20E3] @
    lit '' <strong>First step</strong>: Explanation</li>\<newline>'' @ lit ''   <li>2'' @
    [0xFE0F, 0x20E3] @ lit '' <strong>Second step</strong>: Details</li>\<newline>'' @
    lit ''   <li>3'' @ [0xFE0F, 0x20E3] @
    lit '' <strong>Final step</strong>: Conclusion</li>\<newline>'' @ lit ''   </ol>\<newline>'' @
    lit ''\<newline>'' @ lit ''CONTENT REQUIREMENTS:\<newline>'' @
    lit ''- Use EXTREMELY simple language (7-year-old level)\<newline>'' @
    lit ''- Give specific answer according to user's question related to pdf content\<newline>'' @
    lit ''- Add helpful examples and real-life applications\<newline>'' @
    lit ''- Add famous mnemonics related to relavent information\<newline>'' @
    lit ''- Break complex information into simple emoji bullet point\<newline>'' @
    lit ''- Always be supportive and encouraging\<newline>'' @ lit ''\<newline>'' @
    lit ''PDF Content:\<newline>''"

definition prompt_after_Part000 :: jsstring where
  "prompt_after_Part000 =
    lit ''\<newline>'' @ lit ''\<newline>'' @
    lit ''REMEMBER: ALWAYS use the structured format with emoji bullets - NEVER respond in plain paragraphs!''"

definition prompt_before_ChatBot :: jsstring where
  "prompt_before_ChatBot =
    lit ''You are a helpful teacher that answers questions related to OCR text from a PDF. You can also use your own knowledge when the answer isn't in the OCR text, ensuring the user's doubt is clarified effectively.\<newline>'' @
    lit ''      \<newline>'' @ lit ''      FORMATTING REQUIREMENTS - STRICTLY FOLLOW:\<newline>'' @
    lit ''      \<newline>'' @
    lit ''      1. **Always start with a title using <h3><strong>Title: [Your Topic]</strong></h3>**\<newline>'' @
    lit ''      \<newline>'' @
    lit ''      2. **Use EMOJI BULLET POINTS for all lists:**\<newline>'' @
    lit ''         - Main points: Use '' @ [0xD83D, 0xDD39] @ lit '' or '' @ [0xD83D, 0xDCCC] @
    lit '' or '' @ [0x2B50] @ lit '' \<newline>'' @ lit ''         - Sub-points: Use '' @
    [0xD83D, 0xDD38] @ lit '' or '' @ [0x27A4] @ lit '' or '' @ [0x25AA, 0xFE0F] @
    lit ''\<newline>'' @ lit ''         - Steps: Use 1'' @ [0xFE0F, 0x20E3] @ lit '' 2'' @
    [0xFE0F, 0x20E3] @ lit '' 3'' @ [0xFE0F, 0x20E3] @ lit '' or '' @ [0xD83D, 0xDCDD] @
    lit '' '' @ [0xD83D, 0xDCCB] @ lit '' '' @ [0x2705] @ lit ''\<newline>'' @
    lit ''      \<newline>'' @
    lit ''      3. **FORCE BULLET POINT FORMAT - Never use regular text paragraphs:**\<newline>'' @
    lit ''         - Always use <ul><li> tags with emoji bullets\<newline>'' @
    lit ''         - Add proper spacing with <br/> tags\<newline>'' @
    lit ''         - Use <strong> for emphasis\<newline>'' @ lit ''      \<newline>'' @
    lit ''      4. **Example structure to ALWAYS follow:**\<newline>'' @
    lit ''         <h3><strong>Title: Your Response Topic</strong></h3>\<newline>'' @
    lit ''         <ul>\<newline>'' @ lit ''         <li>'' @ [0xD83D, 0xDD39] @
    lit '' <strong>Main Point 1</strong>:<br/>\<newline>'' @ lit ''         '' @ [0xD83D, 0xDD38] @
    lit '' Sub-point explanation<br/>\<newline>'' @ lit ''         '' @ [0xD83D, 0xDD38] @
    lit '' Another sub-point with details</li>\<newline>'' @ lit ''         <br/>\<newline>'' @
    lit ''         <li>'' @ [0xD83D, 0xDCCC] @
    lit '' <strong>Main Point 2</strong>:<br/>\<newline>'' @ lit ''         '' @ [0xD83D, 0xDD38] @
    lit '' Clear explanation in simple terms<br/>\<newline>'' @ lit ''         '' @
    [0xD83D, 0xDD38] @ lit '' Real-life example or application</li>\<newline>'' @
    lit ''         </ul>\<newline>'' @ lit ''      \<newline>'' @
    lit ''      5. **For numbered steps, use emoji numbers:**\<newline>'' @
    lit ''         <ol>\<newline>'' @ lit ''         <li>1'' @ [0xFE0F, 0x20E3] @
    lit '' <strong>First step</strong>: Explanation</li>\<newline>'' @ lit ''         <li>2'' @
    [0xFE0F, 0x20E3] @ lit '' <strong>Second step</strong>: Details</li>\<newline>'' @
    lit ''         <li>3'' @ [0xFE0F, 0x20E3] @
    lit '' <strong>Final step</strong>: Conclusion</li>\<newline>'' @
    lit ''         </ol>\<newline>'' @ lit ''      \<newline>'' @
    lit ''      CONTENT REQUIREMENTS:\<newline>'' @
    lit ''      - Use EXTREMELY simple language (7-year-old level)\<newline>'' @
    lit ''      - Always prioritize answering the user's question clearly and specifically\<newline>'' @
    lit ''      - Relate the answer to the OCR text whenever possible, explaining the relevant sections\<newline>'' @
    lit ''      - If the answer isn't in the OCR text, use your own knowledge to clarify the user's doubt\<newline>'' @
    lit ''      - Add helpful examples, real-life applications, and famous mnemonics when relevant\<newline>'' @
    lit ''      - Break complex information into simple emoji bullet points\<newline>'' @
    lit ''      - Always be supportive and encouraging\<newline>'' @ lit ''      \<newline>'' @
    lit ''      OCR Content:\<newline>'' @ lit ''      ''"

definition prompt_after_ChatBot :: jsstring where
  "prompt_after_ChatBot =
    lit ''\<newline>'' @ lit ''      \<newline>'' @
    lit ''      When the user asks a question, answer by referencing the OCR text if relevant, but feel free to use external knowledge if needed to ensure the user's doubt is fully addressed. Always be clear, supportive, and well-formatted according to the above guidelines.''"

definition prompt_before_Part001a :: jsstring where
  "prompt_before_Part001a =
    lit ''You are an intelligent teaching assistant that provides clear, helpful answers about PDF content. Use OCR text when relevant, otherwise use your knowledge to fully address the user's question.\<newline>'' @
    lit ''      \<newline>'' @ lit ''      KEY PRINCIPLES:\<newline>'' @
    lit ''      - **Answer directly** what the user is asking - don't add unnecessary definitions if not requested\<newline>'' @
    lit ''      - **Adapt your format** to best suit the question type (explanation, steps, comparison, examples, etc.)\<newline>'' @
    lit ''      - **Use OCR content** when it helps answer the question, but supplement with your knowledge when needed\<newline>'' @
    lit ''      - **Keep language simple** and accessible (middle school level)\<newline>'' @
    lit ''      - **Be conversational** yet informative\<newline>'' @ lit ''      \<newline>'' @
    lit ''      FLEXIBLE FORMATTING GUIDE:\<newline>'' @
    lit ''      Choose the BEST structure for each question type:\<newline>'' @
    lit ''      \<newline>'' @ lit ''      '' @ [0xD83D, 0xDCDD] @
    lit '' **For Explanations/Concepts:**\<newline>'' @
    lit ''      <h3>Understanding [Topic]</h3>\<newline>'' @ lit ''      <ul>\<newline>'' @
    lit ''      <li>'' @ [0x2B50] @
    lit '' <strong>Core Idea</strong>: Simple definition<br/>\<newline>'' @ lit ''      <li>'' @
    [0xD83D, 0xDD39] @ lit '' <strong>Key Points</strong>:<br/>\<newline>'' @ lit ''        '' @
    [0x25AA, 0xFE0F] @ lit '' Point 1<br/>\<newline>'' @ lit ''        '' @ [0x25AA, 0xFE0F] @
    lit '' Point 2<br/>\<newline>'' @ lit ''      <li>'' @ [0xD83D, 0xDCCC] @
    lit '' <strong>Real Example</strong>: Practical illustration\<newline>'' @
    lit ''      </ul>\<newline>'' @ lit ''      \<newline>'' @ lit ''      '' @ [0xD83D, 0xDD04] @
    lit '' **For Processes/Steps:**\<newline>'' @
    lit ''      <h3>Steps to [Action]</h3>\<newline>'' @ lit ''      <ol>\<newline>'' @
    lit ''      <li>1'' @ [0xFE0F, 0x20E3] @
    lit '' <strong>First</strong>: What to do initially</li>\<newline>'' @ lit ''      <li>2'' @
    [0xFE0F, 0x20E3] @ lit '' <strong>Next</strong>: Following actions</li>\<newline>'' @
    lit ''      <li>3'' @ [0xFE0F, 0x20E3] @
    lit '' <strong>Finally</strong>: Completion step</li>\<newline>'' @
    lit ''      </ol>\<newline>'' @ lit ''      \<newline>'' @ lit ''      '' @ [0xD83D, 0xDD0D] @
    lit '' **For Comparisons:**\<newline>'' @ lit ''      <h3>Comparing [Items]</h3>\<newline>'' @
    lit ''      <ul>\<newline>'' @ lit ''      <li>'' @ [0x2705] @
    lit '' <strong>Similarities</strong>:<br/>\<newline>'' @ lit ''        '' @ [0x25AA, 0xFE0F] @
    lit '' Common aspect 1<br/>\<newline>'' @ lit ''        '' @ [0x25AA, 0xFE0F] @
    lit '' Common aspect 2</li>\<newline>'' @ lit ''      <li>'' @ [0x274C] @
    lit '' <strong>Differences</strong>:<br/>\<newline>'' @ lit ''        '' @ [0x25AA, 0xFE0F] @
    lit '' Difference 1<br/>\<newline>'' @ lit ''        '' @ [0x25AA, 0xFE0F] @
    lit '' Difference 2</li>\<newline>'' @ lit ''      </ul>\<newline>'' @
    lit ''      \<newline>'' @ lit ''      '' @ [0xD83C, 0xDFAF] @
    lit '' **For Quick Answers:**\<newline>'' @ lit ''      <h3>Quick Answer</h3>\<newline>'' @
    lit ''      <ul>\<newline>'' @ lit ''      <li>'' @ [0xD83D, 0xDCDD] @
    lit '' Direct answer to the specific question</li>\<newline>'' @ lit ''      <li>'' @
    [0xD83D, 0xDD0D] @ lit '' Additional context if needed</li>\<newline>'' @ lit ''      <li>'' @
    [0xD83D, 0xDCA1] @ lit '' Helpful tip or application</li>\<newline>'' @
    lit ''      </ul>\<newline>'' @ lit ''      \<newline>'' @
    lit ''      SMART DECISION MAKING:\<newline>'' @ lit ''      - If user asks \"what is\" '' @
    [0x2192] @ lit '' Provide clear definition + key characteristics\<newline>'' @
    lit ''      - If user asks \"how to\" '' @ [0x2192] @
    lit '' Provide step-by-step instructions  \<newline>'' @
    lit ''      - If user asks \"why\" '' @ [0x2192] @
    lit '' Explain reasons and causes\<newline>'' @ lit ''      - If user asks \"compare\" '' @
    [0x2192] @ lit '' Use comparison format\<newline>'' @
    lit ''      - If user asks quick fact '' @ [0x2192] @
    lit '' Give direct answer first\<newline>'' @ lit ''      \<newline>'' @
    lit ''      OCR Content for reference:\<newline>'' @ lit ''      ''"

definition prompt_after_Part001a :: jsstring where
  "prompt_after_Part001a =
    lit ''\<newline>'' @ lit ''      \<newline>'' @
    lit ''      **CRITICAL**: Answer exactly what the user is asking in the most appropriate format. Be conversational but thorough.''"

definition prompt_before_Part001b :: jsstring where
  "prompt_before_Part001b =
    lit ''You are a helpful teacher that answers questions about PDF content in the ABSOLUTE SIMPLEST language possible.\<newline>'' @
    lit ''              You are given OCR text extracted from a PDF document and must answer questions related to it '' @
    [0x2014] @ lit '' whether they are directly in the text or not.\<newline>'' @
    lit ''              \<newline>'' @
    lit ''              IMPORTANT: Your answers must be COMPLETE and include ALL relevant information from the PDF text.\<newline>'' @
    lit ''              \<newline>'' @
    lit ''              Follow these strict guidelines:\<newline>'' @
    lit ''              \<newline>'' @ lit ''              1. Use EXTREMELY simple language '' @
    [0x2014] @ lit '' define and explain from basics as if to a 7-year-old student\<newline>'' @
    lit ''              2. Format answers EXCLUSIVELY in bullet points (<ui> and <li>) with proper spacing between each point\<newline>'' @
    lit ''              3. Every bullet point MUST be separated by one line break for readability\<newline>'' @
    lit ''              4. Use <strong> HTML tags for important keywords, concepts and definitions\<newline>'' @
    lit ''              5. Keep explanations complete '' @ [0x2014] @
    lit '' do not leave out ANY important details\<newline>'' @
    lit ''              6. If asked to explain any concept, give 1-2 very simple examples\<newline>'' @
    lit ''              7. If the answer is not in the text, use your own knowledge to help but mention this fact\<newline>'' @
    lit ''              8. ALWAYS add helpful examples or real-life applications\<newline>'' @
    lit ''              9. NEVER use technical or medical jargon - explain everything in simple terms\<newline>'' @
    lit ''              10. ALWAYS format using HTML <ul><li> for bullet points with proper spacing\<newline>'' @
    lit ''              11. Add clear line breaks between different parts of your answer\<newline>'' @
    lit ''              12. If asked, create simple tables, comparisons, or explanations using HTML formatting\<newline>'' @
    lit ''              13. Always be helpful and supportive\<newline>'' @
    lit ''              14. NEVER skip any relevant information from the PDF text in your answer\<newline>'' @
    lit ''              15. If the information is complex, break it down into multiple simple points\<newline>'' @
    lit ''            \<newline>'' @ lit ''Here's the PDF content to reference:\<newline>''"

definition prompt_after_Part001b :: jsstring where
  "prompt_after_Part001b =
    lit ''\<newline>'' @ lit ''\<newline>'' @ lit ''Please answer questions related to content.''"

text \<open>
  The template literal of each variant is the text before \<open>${ocrText}\<close>, the source text,
  and the text after it.
\<close>

fun systemPrompt :: "Variant \<Rightarrow> jsstring \<Rightarrow> jsstring" where
  "systemPrompt Part000 ocrText = prompt_before_Part000 @ ocrText @ prompt_after_Part000"
| "systemPrompt ChatBot ocrText = prompt_before_ChatBot @ ocrText @ prompt_after_ChatBot"
| "systemPrompt Part001a ocrText = prompt_before_Part001a @ ocrText @ prompt_after_Part001a"
| "systemPrompt Part001b ocrText = prompt_before_Part001b @ ocrText @ prompt_after_Part001b"

fun temperature :: "Variant \<Rightarrow> rat" where
  "temperature Part000 = 0.5"
| "temperature ChatBot = 0.5"
| "temperature Part001a = 0.6"
| "temperature Part001b = 0.9"

fun max_tokens :: "Variant \<Rightarrow> nat" where
  "max_tokens Part000 = 2000"
| "max_tokens ChatBot = 2000"
| "max_tokens Part001a = 2000"
| "max_tokens Part001b = 1000"

datatype ChatMessage = ChatMessage (chat_role: jsstring) (chat_content: jsstring)

record RequestBody =
  body_model :: jsstring
  body_messages :: "ChatMessage list"
  body_temperature :: rat
  body_max_tokens :: nat

definition requestBody :: "Variant \<Rightarrow> jsstring \<Rightarrow> jsstring \<Rightarrow> RequestBody" where
  "requestBody v ocrText currentInput =
     \<lparr>body_model = lit ''meta-llama/llama-4-scout-17b-16e-instruct'',
      body_messages =
        [ChatMessage (lit ''system'') (systemPrompt v ocrText),
         ChatMessage (lit ''user'') currentInput],
      body_temperature = temperature v,
      body_max_tokens = max_tokens v\<rparr>"

record Request =
  url :: jsstring
  http_method :: jsstring
  authorization :: jsstring
  content_type :: jsstring
  body :: RequestBody

text \<open>
  What a handler does besides updating the state, in the order it does it. The options of
  the toasts (duration, position) and the calls of \<open>console\<close> are left out.
\<close>

datatype Effect =
    PreventDefault
  | ToastError jsstring
  | ToastLoading jsstring
  | ToastSuccess jsstring
  | ToastDismiss ToastId
  | Fetch Request
  | OnToggle

text \<open>
  What a component instance is given: its variant, the \<open>ocrText\<close> prop, the credential
  \<open>import.meta.env.VITE_GROQ_API_KEY\<close> (\<open>None\<close> when undefined), and the messages of the
  three \<open>TypeError\<close>s the JavaScript engine can raise in \<open>handleSubmit\<close>, whose wording is
  the engine's: reading a property of \<open>null\<close>, calling a value that is not a function, and
  converting an object to a primitive.
\<close>

record Env =
  variant :: Variant
  ocrText :: jsstring
  GROQ_API_KEY :: "jsstring option"
  msgNullRead :: jsstring
  msgNotFunction :: jsstring
  msgToPrimitive :: jsstring

definition keyConfigured :: "jsstring option \<Rightarrow> bool" where
  "keyConfigured k = (case k of None \<Rightarrow> False | Some t \<Rightarrow> t \<noteq> [])"

definition request :: "Env \<Rightarrow> jsstring \<Rightarrow> Request" where
  "request env currentInput =
     \<lparr>url = lit ''https://api.groq.com/openai/v1/chat/completions'',
      http_method = lit ''POST'',
      authorization = lit ''Bearer '' @ (case GROQ_API_KEY env of None \<Rightarrow> [] | Some k \<Rightarrow> k),
      content_type = lit ''application/json'',
      body = requestBody (variant env) (ocrText env) currentInput\<rparr>"

section \<open>handleSubmit, up to the await of fetch\<close>

text \<open>
  The part of \<open>handleSubmit\<close> that runs synchronously in the submit event: the two guards,
  the state updates and the call of \<open>fetch\<close>. \<open>tid\<close> is what \<open>toast.loading\<close> returns. The
  updater functions passed to \<open>setMessages\<close> are applied in the order they are queued.
\<close>

definition handleSubmit :: "Env \<Rightarrow> ToastId \<Rightarrow> ChatState \<Rightarrow> ChatState \<times> Effect list" where
  "handleSubmit env tid s =
     (if trim (input s) = [] \<or> isProcessing s then (s, [PreventDefault])
      else if \<not> keyConfigured (GROQ_API_KEY env) then
        (s, [PreventDefault,
             ToastError (lit ''Groq API key not configured. Please check your environment variables.'')])
      else
        let userMessage = \<lparr>role = User, content = trim (input s)\<rparr>;
            s1 = s\<lparr>messages := messages s @ [userMessage]\<rparr>;
            currentInput = trim (input s);
            s2 = s1\<lparr>input := []\<rparr>;
            s3 = s2\<lparr>isProcessing := True\<rparr>;
            s4 = s3\<lparr>messages := messages s3 @ [\<lparr>role = Assistant, content = thinking\<rparr>]\<rparr>
        in (s4\<lparr>inflight := inflight s4 @ [tid]\<rparr>,
            [PreventDefault, ToastLoading (lit ''Processing your question...''),
             Fetch (request env currentInput)]))"

section \<open>The response\<close>

text \<open>
  A parsed JSON number is represented by the two things this program can observe of it:
  whether it is zero (its truthiness) and its rendering under \<open>ToString\<close>.
\<close>

datatype JsNumber = JsNumber (nonzero: bool) (rendering: jsstring)

datatype Json =
    JNull
  | JBool bool
  | JNumber JsNumber
  | JString jsstring
  | JArray "Json list"
  | JObject "(jsstring \<times> Json) list"

text \<open>A thrown value: an \<open>Error\<close> object with its \<open>message\<close>, or anything else.\<close>

datatype Thrown = ErrorObject jsstring | OtherValue

text \<open>
  The body of a response: reading it fails, or it is a text together with what
  \<open>JSON.parse\<close> makes of that text (the \<open>SyntaxError\<close> it throws, or the value).
\<close>

datatype Body = BodyUnreadable Thrown | BodyText jsstring "Thrown + Json"

text \<open>How the \<open>fetch\<close> settles: it rejects, or it resolves to a response with a status.\<close>

datatype Outcome = Rejected Thrown | Responded nat Body

definition ok :: "nat \<Rightarrow> bool" where
  "ok status = (200 \<le> status \<and> status \<le> 299)"

fun truthyJson :: "Json \<Rightarrow> bool" where
  "truthyJson JNull = False"
| "truthyJson (JBool b) = b"
| "truthyJson (JNumber n) = nonzero n"
| "truthyJson (JString t) = (t \<noteq> [])"
| "truthyJson (JArray xs) = True"
| "truthyJson (JObject kvs) = True"

text \<open>A JavaScript value read from a parsed body: \<open>None\<close> is \<open>undefined\<close>.\<close>

definition truthy :: "Json option \<Rightarrow> bool" where
  "truthy v = (case v of None \<Rightarrow> False | Some j \<Rightarrow> truthyJson j)"

text \<open>
  \<open>v.name\<close> for a value that is not \<open>null\<close> and a name that no prototype defines (the
  program reads \<open>choices\<close>, \<open>message\<close>, \<open>content\<close> and \<open>error\<close>), and \<open>v[0]\<close>.
\<close>

fun getMember :: "jsstring \<Rightarrow> Json \<Rightarrow> Json option" where
  "getMember name (JObject kvs) = map_of kvs name"
| "getMember name j = None"

fun getFirst :: "Json \<Rightarrow> Json option" where
  "getFirst (JObject kvs) = map_of kvs (lit ''0'')"
| "getFirst (JArray []) = None"
| "getFirst (JArray (x # xs)) = Some x"
| "getFirst (JString []) = None"
| "getFirst (JString (c # cs)) = Some (JString [c])"
| "getFirst j = None"

text \<open>
  \<open>ToString\<close> of a parsed value, which \<open>new Error(errorMessage)\<close> applies to its argument.
  An array joins its elements with commas, \<open>null\<close> elements as the empty string. An object
  is \<open>[object Object]\<close>, unless it has a key \<open>toString\<close>: that value is not callable, and
  neither its own \<open>valueOf\<close> nor the inherited one yields a primitive, so the conversion
  throws a \<open>TypeError\<close>.
\<close>

fun toString :: "jsstring \<Rightarrow> Json \<Rightarrow> Thrown + jsstring"
  and joinElements :: "jsstring \<Rightarrow> Json list \<Rightarrow> Thrown + jsstring" where
  "toString msg JNull = Inr (lit ''null'')"
| "toString msg (JBool b) = Inr (if b then lit ''true'' else lit ''false'')"
| "toString msg (JNumber n) = Inr (rendering n)"
| "toString msg (JString t) = Inr t"
| "toString msg (JArray xs) = joinElements msg xs"
| "toString msg (JObject kvs) =
     (case map_of kvs (lit ''toString'') of
        None \<Rightarrow> Inr (lit ''[object Object]'')
      | Some f \<Rightarrow> Inl (ErrorObject msg))"
| "joinElements msg [] = Inr []"
| "joinElements msg (x # xs) =
     (case (if x = JNull then Inr [] else toString msg x) of
        Inl e \<Rightarrow> Inl e
      | Inr a \<Rightarrow>
          (if xs = [] then Inr a
           else case joinElements msg xs of
                  Inl e \<Rightarrow> Inl e
                | Inr b \<Rightarrow> Inr (a @ lit '','' @ b)))"

text \<open>\<open>a || b\<close>, and \<open>new Error(v)\<close> as the value a \<open>throw\<close> of it raises.\<close>

definition orElse :: "Json option \<Rightarrow> Json option \<Rightarrow> Json option" where
  "orElse a b = (if truthy a then a else b)"

definition newError :: "Env \<Rightarrow> Json option \<Rightarrow> Thrown" where
  "newError env v =
     (case v of
        None \<Rightarrow> ErrorObject []
      | Some j \<Rightarrow> (case toString (msgToPrimitive env) j of Inl e \<Rightarrow> e | Inr m \<Rightarrow> ErrorObject m))"

section \<open>handleSubmit, after the await of fetch\<close>

text \<open>
  What the block \<open>if (!response.ok) { ... }\<close> throws. The inner \<open>try\<close> covers both
  \<open>JSON.parse\<close> and the property reads, so a body that parses to \<open>null\<close> ends in its
  \<open>catch\<close> as a body that does not parse.
\<close>

definition httpMessage :: "nat \<Rightarrow> jsstring \<Rightarrow> jsstring" where
  "httpMessage status errorText = lit ''HTTP '' @ show_nat status @ lit '': '' @ errorText"

definition errorMessageOf :: "Json \<Rightarrow> Json option" where
  "errorMessageOf errorData =
     orElse
       (orElse
          (case getMember (lit ''error'') errorData of
             None \<Rightarrow> None
           | Some JNull \<Rightarrow> None
           | Some e \<Rightarrow> getMember (lit ''message'') e)
          (getMember (lit ''message'') errorData))
       (Some (JString (lit ''Failed to get response from AI'')))"

definition notOk :: "Env \<Rightarrow> nat \<Rightarrow> Body \<Rightarrow> Thrown" where
  "notOk env status b =
     (case b of
        BodyUnreadable e \<Rightarrow> e
      | BodyText errorText parsed \<Rightarrow>
          (case parsed of
             Inl syntaxError \<Rightarrow> newError env (Some (JString (httpMessage status errorText)))
           | Inr errorData \<Rightarrow>
               (if errorData = JNull
                then newError env (Some (JString (httpMessage status errorText)))
                else newError env (errorMessageOf errorData))))"

text \<open>
  The reply text of a parsed success body, or what the checks throw. \<open>trim\<close> is a method
  of strings only: on any other truthy value the call throws a \<open>TypeError\<close>.
\<close>

definition invalidFormat :: Thrown where
  "invalidFormat = ErrorObject (lit ''Invalid response format from API'')"

definition emptyResponse :: Thrown where
  "emptyResponse = ErrorObject (lit ''Empty response from AI'')"

definition aiResponseOf :: "Env \<Rightarrow> Json \<Rightarrow> Thrown + jsstring" where
  "aiResponseOf env data =
     (if data = JNull then Inl (ErrorObject (msgNullRead env))
      else case getMember (lit ''choices'') data of
        None \<Rightarrow> Inl invalidFormat
      | Some choices \<Rightarrow>
          if \<not> truthyJson choices then Inl invalidFormat
          else (case getFirst choices of
            None \<Rightarrow> Inl invalidFormat
          | Some choice \<Rightarrow>
              if \<not> truthyJson choice then Inl invalidFormat
              else (case getMember (lit ''message'') choice of
                None \<Rightarrow> Inl invalidFormat
              | Some message \<Rightarrow>
                  if \<not> truthyJson message then Inl invalidFormat
                  else (case getMember (lit ''content'') message of
                    None \<Rightarrow> Inl emptyResponse
                  | Some aiResponse \<Rightarrow>
                      if \<not> truthyJson aiResponse then Inl emptyResponse
                      else (case aiResponse of
                        JString t \<Rightarrow> if trim t = [] then Inl emptyResponse else Inr t
                      | _ \<Rightarrow> Inl (ErrorObject (msgNotFunction env)))))))"

text \<open>What the \<open>try\<close> block yields once \<open>fetch\<close> has resolved: the reply, or a thrown value.\<close>

definition afterFetch :: "Env \<Rightarrow> nat \<Rightarrow> Body \<Rightarrow> Thrown + jsstring" where
  "afterFetch env status b =
     (if \<not> ok status then Inl (notOk env status b)
      else case b of
        BodyUnreadable e \<Rightarrow> Inl e
      | BodyText t parsed \<Rightarrow>
          (case parsed of Inl syntaxError \<Rightarrow> Inl syntaxError | Inr data \<Rightarrow> aiResponseOf env data))"

text \<open>The text the \<open>catch\<close> block shows for a thrown value.\<close>

definition classify :: "Thrown \<Rightarrow> jsstring" where
  "classify error =
     (case error of
        OtherValue \<Rightarrow> lit ''Sorry, I encountered an error while processing your question.''
      | ErrorObject message \<Rightarrow>
          if str_includes message (lit ''Failed to fetch'') \<or>
             str_includes message (lit ''NetworkError'')
          then lit ''Network error. Please check your internet connection and try again.''
          else if str_includes message (lit ''401'')
          then lit ''Authentication error. The Groq API key may be invalid.''
          else if str_includes message (lit ''429'')
          then lit ''Rate limit exceeded. Please wait a moment and try again.''
          else if str_includes message (lit ''404'')
          then lit ''The AI model is not available. Please try again later.''
          else lit ''Error: '' @ message)"

definition dismiss :: "ToastId \<Rightarrow> Effect list" where
  "dismiss tid = (if truthyId tid then [ToastDismiss tid] else [])"

definition removeThinking :: "Message list \<Rightarrow> Message list" where
  "removeThinking ms = filter (\<lambda>m. content m \<noteq> thinking) ms"

definition catchBlock :: "ToastId \<Rightarrow> Thrown \<Rightarrow> ChatState \<Rightarrow> ChatState \<times> Effect list" where
  "catchBlock tid error s =
     (let s1 = s\<lparr>messages := removeThinking (messages s)\<rparr>;
          errorMessage = classify error;
          s2 = s1\<lparr>messages := messages s1 @
                 [\<lparr>role = Assistant,
                   content = errorMessage @ lit '' Please try again or rephrase your question.''\<rparr>]\<rparr>
      in (s2, dismiss tid @ [ToastError (lit ''Failed to generate response'')]))"

text \<open>
  The rest of \<open>handleSubmit\<close>, run when the \<open>fetch\<close> of the submission with toast \<open>tid\<close>
  settles, on the state of that moment: every update of it is an updater function or a
  constant, so it reads no state of the render that submitted. It is one step of the
  model: while it waits for the body, \<open>isProcessing\<close> is still true and no other handler
  writes \<open>messages\<close>.
\<close>

definition settle :: "Env \<Rightarrow> ToastId \<Rightarrow> Outcome \<Rightarrow> ChatState \<Rightarrow> ChatState \<times> Effect list" where
  "settle env tid outcome s =
     (let (s', effects) =
        (case outcome of
           Rejected error \<Rightarrow> catchBlock tid error s
         | Responded status b \<Rightarrow>
             (let s1 = s\<lparr>messages := removeThinking (messages s)\<rparr>
              in case afterFetch env status b of
                   Inl error \<Rightarrow> catchBlock tid error s1
                 | Inr aiResponse \<Rightarrow>
                     (s1\<lparr>messages := messages s1 @ [\<lparr>role = Assistant, content = aiResponse\<rparr>]\<rparr>,
                      dismiss tid @ [ToastSuccess (lit ''Response generated successfully!'')])))
      in (s'\<lparr>isProcessing := False\<rparr>, effects))"

section \<open>The panel\<close>

text \<open>The effect on \<open>[isVisible]\<close>, which React runs after the mount and after every render
  whose \<open>isVisible\<close> differs from the one before.\<close>

definition visibilityEffect :: "ChatState \<Rightarrow> ChatState" where
  "visibilityEffect s = (if isVisible s \<and> \<not> isExpanded s then s\<lparr>isExpanded := True\<rparr> else s)"

definition mount :: "bool \<Rightarrow> ChatState" where
  "mount visible = visibilityEffect (initial\<lparr>isVisible := visible\<rparr>)"

definition render :: "bool \<Rightarrow> ChatState \<Rightarrow> ChatState" where
  "render visible s =
     (if visible = isVisible s then s else visibilityEffect (s\<lparr>isVisible := visible\<rparr>))"

text \<open>
  \<open>handleMouseDown\<close> registers the \<open>handleMouseMove\<close> and \<open>handleMouseUp\<close> of its own render
  on \<open>document\<close>: closures in which \<open>isResizing\<close> is the value of that render, whatever
  \<open>setIsResizing\<close> stores afterwards. The refs are shared by all renders.
\<close>

definition handleMouseDown :: "int \<Rightarrow> ChatState \<Rightarrow> ChatState" where
  "handleMouseDown clientY s =
     s\<lparr>isResizing := True, startYRef := clientY, startHeightRef := chatHeight s,
       listeners := listeners s @ [isResizing s]\<rparr>"

definition handleMouseMove :: "bool \<Rightarrow> int \<Rightarrow> ChatState \<Rightarrow> ChatState" where
  "handleMouseMove capturedIsResizing clientY s =
     (if \<not> capturedIsResizing then s
      else
        let deltaY = startYRef s - clientY;
            newHeight = max 200 (min 600 (startHeightRef s + deltaY))
        in s\<lparr>chatHeight := newHeight\<rparr>)"

text \<open>
  \<open>handleMouseUp\<close> clears \<open>isResizing\<close> and removes the pair it belongs to. Pairs that
  captured the same value are not told apart by the model, so it removes one of them.
\<close>

definition handleMouseUp :: "bool \<Rightarrow> ChatState \<Rightarrow> ChatState" where
  "handleMouseUp capturedIsResizing s =
     s\<lparr>isResizing := False, listeners := remove1 capturedIsResizing (listeners s)\<rparr>"

text \<open>
  A \<open>mousemove\<close> on \<open>document\<close> runs every registered \<open>handleMouseMove\<close>, and a \<open>mouseup\<close>
  every registered \<open>handleMouseUp\<close>, in the order of registration.
\<close>

definition mouseMove :: "int \<Rightarrow> ChatState \<Rightarrow> ChatState" where
  "mouseMove clientY s = fold (\<lambda>captured. handleMouseMove captured clientY) (listeners s) s"

definition mouseUp :: "ChatState \<Rightarrow> ChatState" where
  "mouseUp s = fold handleMouseUp (listeners s) s"

section \<open>Events\<close>

datatype Event =
    ParentRender bool
  | Change jsstring
  | Submit ToastId
  | Settled Outcome
  | MouseDown int
  | MouseMove int
  | MouseUp
  | ClickMinimize
  | ClickOverlay
  | ClickExpand
  | ClickClose

text \<open>
  One event of the component: the next state and what the handler did besides. A settlement
  belongs to the oldest pending submission. The handlers are applied whether or not the
  element that carries them is rendered, so the reachable states of the model include
  those of the component.
\<close>

fun step :: "Env \<Rightarrow> ChatState \<Rightarrow> Event \<Rightarrow> ChatState \<times> Effect list" where
  "step env s (ParentRender visible) = (render visible s, [])"
| "step env s (Change t) = (s\<lparr>input := t\<rparr>, [])"
| "step env s (Submit tid) = handleSubmit env tid s"
| "step env s (Settled outcome) =
     (case inflight s of
        [] \<Rightarrow> (s, [])
      | tid # rest \<Rightarrow> settle env tid outcome (s\<lparr>inflight := rest\<rparr>))"
| "step env s (MouseDown clientY) = (handleMouseDown clientY s, [])"
| "step env s (MouseMove clientY) = (mouseMove clientY s, [])"
| "step env s MouseUp = (mouseUp s, [])"
| "step env s ClickMinimize = (s\<lparr>isExpanded := False\<rparr>, [])"
| "step env s ClickOverlay = (s\<lparr>isExpanded := False\<rparr>, [])"
| "step env s ClickExpand = (s\<lparr>isExpanded := True\<rparr>, [])"
| "step env s ClickClose = (s, [OnToggle])"

fun run :: "Env \<Rightarrow> ChatState \<Rightarrow> Event list \<Rightarrow> ChatState" where
  "run env s [] = s"
| "run env s (e # es) = run env (fst (step env s e)) es"

section \<open>Notions used to state the properties\<close>

text \<open>
  The message a settlement appends: the reply text on success, the text of the \<open>catch\<close>
  block otherwise (lines 190 and 218 to 221 of \<open>part_000\<close>).
\<close>

definition replyOf :: "Env \<Rightarrow> Outcome \<Rightarrow> Message" where
  "replyOf env outcome =
     (case outcome of
        Rejected e \<Rightarrow>
          \<lparr>role = Assistant,
           content = classify e @ lit '' Please try again or rephrase your question.''\<rparr>
      | Responded status b \<Rightarrow>
          (case afterFetch env status b of
             Inl e \<Rightarrow>
               \<lparr>role = Assistant,
                content = classify e @ lit '' Please try again or rephrase your question.''\<rparr>
           | Inr t \<Rightarrow> \<lparr>role = Assistant, content = t\<rparr>))"

text \<open>
  Concrete inputs for the examples below: an instance with a credential (the engine
  messages are those of V8), a success body with one choice, the error body of a rate
  limited request, and the state right after the question \<open>hi\<close> was submitted.
\<close>

definition exampleEnv :: Env where
  "exampleEnv = \<lparr>variant = Part000, ocrText = lit ''Cells divide by mitosis.'',
     GROQ_API_KEY = Some (lit ''gsk_example''),
     msgNullRead = lit ''Cannot read properties of null (reading 'choices')'',
     msgNotFunction = lit ''aiResponse.trim is not a function'',
     msgToPrimitive = lit ''Cannot convert object to primitive value''\<rparr>"

definition successBody :: "jsstring \<Rightarrow> Body" where
  "successBody t =
     BodyText (lit ''{\"choices\":[{\"message\":{\"content\":\"'' @ t @ lit ''\"}}]}'')
       (Inr (JObject [(lit ''choices'',
          JArray [JObject [(lit ''message'', JObject [(lit ''content'', JString t)])]])]))"

definition rateLimitBody :: Body where
  "rateLimitBody =
     BodyText (lit ''{\"error\":{\"message\":\"Too many requests\"}}'')
       (Inr (JObject [(lit ''error'',
          JObject [(lit ''message'', JString (lit ''Too many requests''))])]))"

definition afterSubmit :: ChatState where
  "afterSubmit =
     fst (handleSubmit exampleEnv (IdNumber 1) ((mount True)\<lparr>input := lit ''hi''\<rparr>))"

section \<open>Facts about strings\<close>

lemma unat_of_char: "unat (of_char c :: 16 word) = of_char c"
proof -
  have "(256 :: nat) \<le> 2 ^ 16" by simp
  then have lt: "(of_char c :: nat) < 2 ^ 16"
    by (rule order_less_le_trans [OF nat_of_char_less_256])
  have "(of_char c :: 16 word) = of_nat (of_char c)" by (simp add: of_nat_of_char)
  then have "unat (of_char c :: 16 word) = unat (of_nat (of_char c :: nat) :: 16 word)" by simp
  also have "\<dots> = of_char c" using lt by (simp add: unat_of_nat)
  finally show ?thesis .
qed

lemma of_char_word_eq_iff: "(of_char c :: 16 word) = of_char d \<longleftrightarrow> c = d"
proof
  assume "(of_char c :: 16 word) = of_char d"
  then have "unat (of_char c :: 16 word) = unat (of_char d :: 16 word)" by simp
  then have "(of_char c :: nat) = of_char d" by (simp only: unat_of_char)
  then show "c = d" by simp
qed simp

lemma inj_lit: "inj lit"
  unfolding lit_def by (rule inj_mapI) (simp add: inj_on_def of_char_word_eq_iff)

lemma lit_eq_iff: "lit a = lit b \<longleftrightarrow> a = b"
  using inj_lit by (simp add: inj_eq)

lemma lit_Nil: "lit [] = []"
  by (simp add: lit_def)

lemma lit_Cons: "lit (c # cs) = of_char c # lit cs"
  by (simp add: lit_def)

lemma lit_append: "lit (a @ b) = lit a @ lit b"
  by (simp add: lit_def)

lemma lit_eq_Nil_iff: "lit a = [] \<longleftrightarrow> a = []"
  by (simp add: lit_def)

lemma length_lit: "length (lit a) = length a"
  by (simp add: lit_def)

lemma startsWith_lit: "startsWith (lit a) (lit b) = startsWith a b"
  by (induction a b rule: startsWith.induct) (simp_all add: lit_Nil lit_Cons of_char_word_eq_iff)

lemma str_includes_lit: "str_includes (lit a) (lit b) = str_includes a b"
  by (induction a) (simp_all add: lit_Nil lit_Cons startsWith_lit [symmetric] lit_eq_Nil_iff)

lemma trim_Nil: "trim [] = []"
  by (simp add: trim_def)

lemma trim_lit_hi: "trim (lit ''hi'') = lit ''hi''"
  by (simp add: trim_def lit_def isWhiteSpace_def)

lemma trim_lit_hi_padded: "trim (lit '' hi '') = lit ''hi''"
  by (simp add: trim_def lit_def isWhiteSpace_def)

lemma trim_lit_Hello: "trim (lit ''Hello'') = lit ''Hello''"
  by (simp add: trim_def lit_def isWhiteSpace_def)

lemma trim_lit_space: "trim (lit '' '') = []"
  by (simp add: trim_def lit_def isWhiteSpace_def)

lemma trim_thinking: "trim thinking = thinking"
  by (simp add: thinking_def trim_def lit_def isWhiteSpace_def)

lemma greeting_not_thinking: "content greeting \<noteq> thinking"
  by (simp add: greeting_def thinking_def lit_eq_iff)

lemma suffix_not_thinking: "t @ lit '' Please try again or rephrase your question.'' \<noteq> thinking"
proof
  assume "t @ lit '' Please try again or rephrase your question.'' = thinking"
  then have "length (t @ lit '' Please try again or rephrase your question.'') = length thinking"
    by simp
  then show False by (simp add: thinking_def length_lit)
qed

lemma lit_append_nonempty: "a \<noteq> [] \<Longrightarrow> lit a @ r \<noteq> []"
  by (simp add: lit_def)

lemma startsWith_append: "startsWith a p \<Longrightarrow> startsWith (a @ r) p"
  by (induction a p rule: startsWith.induct) simp_all

lemma startsWith_lit_append: "startsWith a p \<Longrightarrow> startsWith (lit a @ r) (lit p)"
  by (rule startsWith_append) (simp add: startsWith_lit)

text \<open>
  Every template opens with the instruction \<open>You are a\<close> (\<open>You are an\<close> in one variant)
  and goes on after the source text.
\<close>

lemma prompt_before_instructs:
  "startsWith prompt_before_Part000 (lit ''You are a'')"
  "startsWith prompt_before_ChatBot (lit ''You are a'')"
  "startsWith prompt_before_Part001a (lit ''You are a'')"
  "startsWith prompt_before_Part001b (lit ''You are a'')"
  unfolding prompt_before_Part000_def prompt_before_ChatBot_def prompt_before_Part001a_def
    prompt_before_Part001b_def
  by (rule startsWith_lit_append, simp)+

lemma prompt_after_nonempty:
  "prompt_after_Part000 \<noteq> []" "prompt_after_ChatBot \<noteq> []"
  "prompt_after_Part001a \<noteq> []" "prompt_after_Part001b \<noteq> []"
  unfolding prompt_after_Part000_def prompt_after_ChatBot_def prompt_after_Part001a_def
    prompt_after_Part001b_def
  by (rule lit_append_nonempty, simp)+

section \<open>Facts about the two halves of handleSubmit\<close>

lemma handleSubmit_accepted:
  assumes "trim (input s) \<noteq> []" and "\<not> isProcessing s" and "keyConfigured (GROQ_API_KEY env)"
  shows "handleSubmit env tid s =
    (s\<lparr>messages := messages s @ [\<lparr>role = User, content = trim (input s)\<rparr>,
                                 \<lparr>role = Assistant, content = thinking\<rparr>],
       input := [], isProcessing := True, inflight := inflight s @ [tid]\<rparr>,
     [PreventDefault, ToastLoading (lit ''Processing your question...''),
      Fetch (request env (trim (input s)))])"
  using assms by (simp add: handleSubmit_def Let_def)

lemma handleSubmit_messages:
  "\<exists>added. messages (fst (handleSubmit env tid s)) = messages s @ added"
  by (simp add: handleSubmit_def Let_def)

lemma removeThinking_idem: "removeThinking (removeThinking ms) = removeThinking ms"
  by (simp add: removeThinking_def)

lemma removeThinking_clean: "m \<in> set (removeThinking ms) \<Longrightarrow> content m \<noteq> thinking"
  by (simp add: removeThinking_def)

lemma removeThinking_greeting:
  "removeThinking (greeting # rest) = greeting # removeThinking rest"
  using greeting_not_thinking by (simp add: removeThinking_def)

lemma catchBlock_messages:
  "messages (fst (catchBlock tid e s)) =
     removeThinking (messages s) @
       [\<lparr>role = Assistant,
         content = classify e @ lit '' Please try again or rephrase your question.''\<rparr>]"
  by (simp add: catchBlock_def Let_def)

lemma settle_messages:
  "messages (fst (settle env tid outcome s)) = removeThinking (messages s) @ [replyOf env outcome]"
  by (cases outcome)
     (simp_all add: settle_def replyOf_def catchBlock_messages removeThinking_idem Let_def
        case_prod_unfold split: sum.splits)

lemma settle_isProcessing: "\<not> isProcessing (fst (settle env tid outcome s))"
  by (simp add: settle_def Let_def case_prod_unfold)

lemma replyOf_role: "role (replyOf env outcome) = Assistant"
  by (simp add: replyOf_def split: Outcome.splits sum.splits)

lemma replyOf_thinking_iff:
  "content (replyOf env outcome) = thinking \<longleftrightarrow>
     (\<exists>status b. outcome = Responded status b \<and> afterFetch env status b = Inr thinking)"
  by (cases outcome) (auto simp add: replyOf_def suffix_not_thinking split: sum.splits)

lemma aiResponseOf_wellformed:
  assumes "map_of kvs (lit ''choices'') = Some (JArray (JObject ckvs # others))"
    and "map_of ckvs (lit ''message'') = Some (JObject mkvs)"
    and "map_of mkvs (lit ''content'') = Some (JString t)"
    and "trim t \<noteq> []"
  shows "aiResponseOf env (JObject kvs) = Inr t"
proof -
  from assms(4) have "t \<noteq> []" by (auto simp add: trim_Nil)
  with assms show ?thesis by (simp add: aiResponseOf_def truthy_def)
qed

lemma afterFetch_success:
  assumes "ok status" and "trim t \<noteq> []"
  shows "afterFetch env status (successBody t) = Inr t"
  using assms by (simp add: afterFetch_def successBody_def aiResponseOf_wellformed)

lemma classify_plain:
  assumes "\<not> str_includes m ''Failed to fetch''" and "\<not> str_includes m ''NetworkError''"
    and "\<not> str_includes m ''401''" and "\<not> str_includes m ''429''" and "\<not> str_includes m ''404''"
  shows "classify (ErrorObject (lit m)) = lit ''Error: '' @ lit m"
  using assms by (simp add: classify_def str_includes_lit)

section \<open>Facts about the examples\<close>

lemma exampleEnv_key: "keyConfigured (GROQ_API_KEY exampleEnv)"
  by (simp add: exampleEnv_def keyConfigured_def lit_eq_Nil_iff)

lemma mount_messages: "messages (mount visible) = [greeting]"
  by (simp add: mount_def visibilityEffect_def initial_def)

lemma mount_idle: "\<not> isProcessing (mount visible)"
  by (simp add: mount_def visibilityEffect_def initial_def)

lemma afterSubmit_messages:
  "messages afterSubmit =
     [greeting, \<lparr>role = User, content = lit ''hi''\<rparr>, \<lparr>role = Assistant, content = thinking\<rparr>]"
proof -
  let ?s = "(mount True)\<lparr>input := lit ''hi''\<rparr>"
  have a: "trim (input ?s) \<noteq> []" by (simp add: trim_lit_hi lit_eq_Nil_iff)
  have b: "\<not> isProcessing ?s" by (simp add: mount_idle)
  show ?thesis
    unfolding afterSubmit_def handleSubmit_accepted [OF a b exampleEnv_key]
    by (simp add: trim_lit_hi mount_messages)
qed

lemma removeThinking_afterSubmit:
  "removeThinking (messages afterSubmit) = [greeting, \<lparr>role = User, content = lit ''hi''\<rparr>]"
  using greeting_not_thinking
  by (simp add: afterSubmit_messages removeThinking_def thinking_def lit_eq_iff)

text \<open>
  A whole exchange from the mount: the question is typed, submitted, and the request
  settles.
\<close>

lemma round_trip:
  assumes "trim t \<noteq> []" and "keyConfigured (GROQ_API_KEY env)"
  shows "messages (run env (mount visible) [Change t, Submit tid, Settled outcome]) =
           removeThinking [greeting, \<lparr>role = User, content = trim t\<rparr>] @ [replyOf env outcome]"
proof -
  let ?s1 = "(mount visible)\<lparr>input := t\<rparr>"
  have idle: "\<not> isProcessing ?s1" "inflight ?s1 = []" "messages ?s1 = [greeting]"
    by (simp_all add: mount_def visibilityEffect_def initial_def)
  have nonempty: "trim (input ?s1) \<noteq> []" using assms(1) by simp
  obtain s2 where s2: "fst (handleSubmit env tid ?s1) = s2" by simp
  have s2m: "messages s2 =
      [greeting, \<lparr>role = User, content = trim t\<rparr>, \<lparr>role = Assistant, content = thinking\<rparr>]"
    and s2i: "inflight s2 = [tid]"
    using s2 idle handleSubmit_accepted [OF nonempty idle(1) assms(2), of tid] by auto
  have "run env (mount visible) [Change t, Submit tid, Settled outcome] =
        fst (settle env tid outcome (s2\<lparr>inflight := []\<rparr>))"
    using s2 s2i by simp
  then show ?thesis
    using s2m by (simp add: settle_messages removeThinking_def)
qed

section \<open>Facts about the resize handlers\<close>

lemma fold_handleMouseUp:
  "listeners s = cs \<Longrightarrow>
     fold handleMouseUp cs s = (if cs = [] then s else s\<lparr>isResizing := False, listeners := []\<rparr>)"
proof (induction cs arbitrary: s)
  case Nil
  then show ?case by simp
next
  case (Cons c cs)
  have "listeners (handleMouseUp c s) = cs"
    using Cons.prems by (simp add: handleMouseUp_def)
  from Cons.IH [OF this] show ?case
    using Cons.prems by (simp add: handleMouseUp_def)
qed

text \<open>After a \<open>mouseup\<close> no handler stays registered.\<close>

lemma mouseUp_eq:
  "mouseUp s = (if listeners s = [] then s else s\<lparr>isResizing := False, listeners := []\<rparr>)"
  by (simp add: mouseUp_def fold_handleMouseUp)

section \<open>At most one request is in flight\<close>

lemma settle_inflight: "inflight (fst (settle env tid outcome s)) = inflight s"
  by (cases outcome)
     (simp_all add: settle_def catchBlock_def Let_def case_prod_unfold split: sum.splits)

lemma fold_handleMouseMove_pending:
  "isProcessing (fold (\<lambda>captured. handleMouseMove captured y) cs s) = isProcessing s
   \<and> inflight (fold (\<lambda>captured. handleMouseMove captured y) cs s) = inflight s"
  by (induction cs arbitrary: s) (simp_all add: handleMouseMove_def Let_def)

lemma step_one_in_flight:
  assumes "isProcessing s \<longleftrightarrow> inflight s \<noteq> []" and "length (inflight s) \<le> 1"
  shows "(isProcessing (fst (step env s ev)) \<longleftrightarrow> inflight (fst (step env s ev)) \<noteq> [])
         \<and> length (inflight (fst (step env s ev))) \<le> 1"
proof (cases ev)
  case (Submit tid)
  then show ?thesis using assms by (auto simp add: handleSubmit_def Let_def)
next
  case (Settled outcome)
  then show ?thesis
    using assms settle_isProcessing [of env _ outcome] settle_inflight [of env _ outcome]
    by (cases "inflight s") auto
next
  case (MouseMove y)
  then show ?thesis using assms by (simp add: mouseMove_def fold_handleMouseMove_pending)
qed (insert assms, simp_all add: render_def visibilityEffect_def handleMouseDown_def mouseUp_eq)

text \<open>
  In every reachable state \<open>isProcessing\<close> holds exactly while a request is pending, and
  at most one is: between a submission and its settlement no other submission passes the
  guard, which is why the settlement can be one step of the model.
\<close>

lemma one_request_in_flight:
  "(isProcessing (run env (mount visible) events) \<longleftrightarrow>
      inflight (run env (mount visible) events) \<noteq> [])
   \<and> length (inflight (run env (mount visible) events)) \<le> 1"
proof -
  have "\<And>s. (isProcessing s \<longleftrightarrow> inflight s \<noteq> []) \<Longrightarrow> length (inflight s) \<le> 1 \<Longrightarrow>
          (isProcessing (run env s events) \<longleftrightarrow> inflight (run env s events) \<noteq> [])
          \<and> length (inflight (run env s events)) \<le> 1"
  proof (induction events)
    case Nil
    then show ?case by simp
  next
    case (Cons ev events)
    from step_one_in_flight [OF Cons.prems, of env ev] Cons.IH [of "fst (step env s ev)"]
    show ?case by simp
  qed
  then show ?thesis by (simp add: mount_def visibilityEffect_def initial_def)
qed

section \<open>The claims\<close>

text \<open>
  C1. When the trimmed input is not empty, no request is in flight and the credential is
  present, the synchronous part of \<open>handleSubmit\<close> appends exactly two messages, the user
  message with the trimmed input and then the assistant placeholder \<open>Thinking...\<close>, clears
  the input field and sets \<open>isProcessing\<close>; the call of \<open>fetch\<close> is the last thing it does.
\<close>

theorem submit_appends_user_then_placeholder:
  assumes "trim (input s) \<noteq> []" and "\<not> isProcessing s" and "keyConfigured (GROQ_API_KEY env)"
  shows "messages (fst (handleSubmit env tid s)) =
           messages s @ [\<lparr>role = User, content = trim (input s)\<rparr>,
                         \<lparr>role = Assistant, content = lit ''Thinking...''\<rparr>]
         \<and> input (fst (handleSubmit env tid s)) = []
         \<and> isProcessing (fst (handleSubmit env tid s)) = True
         \<and> snd (handleSubmit env tid s) =
             [PreventDefault, ToastLoading (lit ''Processing your question...''),
              Fetch (request env (trim (input s)))]"
  using assms by (simp add: handleSubmit_def thinking_def Let_def)

theorem submit_appends_user_then_placeholder_witness:
  "trim (input ((mount True)\<lparr>input := lit '' hi ''\<rparr>)) \<noteq> []
   \<and> \<not> isProcessing ((mount True)\<lparr>input := lit '' hi ''\<rparr>)
   \<and> keyConfigured (GROQ_API_KEY exampleEnv)
   \<and> messages (fst (handleSubmit exampleEnv (IdNumber 1) ((mount True)\<lparr>input := lit '' hi ''\<rparr>))) =
       [greeting, \<lparr>role = User, content = lit ''hi''\<rparr>,
        \<lparr>role = Assistant, content = lit ''Thinking...''\<rparr>]
   \<and> input (fst (handleSubmit exampleEnv (IdNumber 1) ((mount True)\<lparr>input := lit '' hi ''\<rparr>))) = []
   \<and> isProcessing (fst (handleSubmit exampleEnv (IdNumber 1) ((mount True)\<lparr>input := lit '' hi ''\<rparr>)))"
proof -
  let ?s = "(mount True)\<lparr>input := lit '' hi ''\<rparr>"
  have a: "trim (input ?s) \<noteq> []" by (simp add: trim_lit_hi_padded lit_eq_Nil_iff)
  have b: "\<not> isProcessing ?s" by (simp add: mount_idle)
  show ?thesis
    using a b exampleEnv_key
      submit_appends_user_then_placeholder [OF a b exampleEnv_key, of "IdNumber 1"]
    by (simp add: trim_lit_hi_padded mount_messages)
qed

text \<open>
  C2, as the spec states it, fails on its last part: the check of the input and of the
  request in flight comes first and returns silently, so a blank input with no credential
  is rejected without any notification.
\<close>

theorem blank_input_without_key_is_silent:
  "trim (input ((mount True)\<lparr>input := lit '' ''\<rparr>)) = []
   \<and> \<not> keyConfigured (GROQ_API_KEY (exampleEnv\<lparr>GROQ_API_KEY := None\<rparr>))
   \<and> handleSubmit (exampleEnv\<lparr>GROQ_API_KEY := None\<rparr>) (IdNumber 1)
        ((mount True)\<lparr>input := lit '' ''\<rparr>) =
       ((mount True)\<lparr>input := lit '' ''\<rparr>, [PreventDefault])"
  by (simp add: handleSubmit_def trim_lit_space keyConfigured_def)

text \<open>
  C2, amended. A submission whose trimmed input is empty, or that comes while a request is
  in flight, or that finds no credential, leaves the whole state as it was and calls no
  \<open>fetch\<close>. A notification is surfaced exactly when the credential is missing and the
  trimmed input is not empty and no request is in flight; it is the configuration error.
\<close>

theorem rejected_submission_changes_nothing:
  assumes "trim (input s) = [] \<or> isProcessing s \<or> \<not> keyConfigured (GROQ_API_KEY env)"
  shows "fst (handleSubmit env tid s) = s
         \<and> (\<forall>r. Fetch r \<notin> set (snd (handleSubmit env tid s)))
         \<and> snd (handleSubmit env tid s) =
             (if trim (input s) = [] \<or> isProcessing s then [PreventDefault]
              else [PreventDefault,
                    ToastError (lit ''Groq API key not configured. Please check your environment variables.'')])
         \<and> ((\<exists>msg. ToastError msg \<in> set (snd (handleSubmit env tid s))) \<longleftrightarrow>
              (trim (input s) \<noteq> [] \<and> \<not> isProcessing s \<and> \<not> keyConfigured (GROQ_API_KEY env)))"
  using assms by (auto simp add: handleSubmit_def)

theorem rejected_submission_changes_nothing_witness:
  "\<not> keyConfigured (GROQ_API_KEY (exampleEnv\<lparr>GROQ_API_KEY := None\<rparr>))
   \<and> handleSubmit (exampleEnv\<lparr>GROQ_API_KEY := None\<rparr>) (IdNumber 1)
        ((mount True)\<lparr>input := lit '' hi ''\<rparr>) =
       ((mount True)\<lparr>input := lit '' hi ''\<rparr>,
        [PreventDefault,
         ToastError (lit ''Groq API key not configured. Please check your environment variables.'')])"
proof -
  let ?s = "(mount True)\<lparr>input := lit '' hi ''\<rparr>"
  let ?env = "exampleEnv\<lparr>GROQ_API_KEY := None\<rparr>"
  have a: "trim (input ?s) \<noteq> []" by (simp add: trim_lit_hi_padded lit_eq_Nil_iff)
  have b: "\<not> isProcessing ?s" by (simp add: mount_idle)
  have c: "\<not> keyConfigured (GROQ_API_KEY ?env)" by (simp add: keyConfigured_def)
  then have d: "trim (input ?s) = [] \<or> isProcessing ?s \<or> \<not> keyConfigured (GROQ_API_KEY ?env)"
    by blast
  show ?thesis
    using a b c rejected_submission_changes_nothing [OF d, of "IdNumber 1"]
    by (simp add: prod_eq_iff)
qed

text \<open>
  C3, as the spec states it, fails: the placeholder is filtered out before the reply is
  appended, so a reply whose text is itself \<open>Thinking...\<close> ends the transcript.
\<close>

theorem sentinel_reply_stays_in_transcript:
  "messages (run exampleEnv (mount True)
      [Change (lit ''hi''), Submit (IdNumber 1),
       Settled (Responded 200 (successBody (lit ''Thinking...'')))]) =
     [greeting, \<lparr>role = User, content = lit ''hi''\<rparr>,
      \<lparr>role = Assistant, content = lit ''Thinking...''\<rparr>]"
proof -
  have "afterFetch exampleEnv 200 (successBody thinking) = Inr thinking"
    by (rule afterFetch_success)
       (simp_all add: ok_def trim_thinking, simp add: thinking_def lit_eq_Nil_iff)
  then have "replyOf exampleEnv (Responded 200 (successBody thinking)) =
      \<lparr>role = Assistant, content = thinking\<rparr>"
    by (simp add: replyOf_def)
  moreover have "trim (lit ''hi'') \<noteq> []" by (simp add: trim_lit_hi lit_eq_Nil_iff)
  ultimately show ?thesis
    using round_trip [of "lit ''hi''" exampleEnv True "IdNumber 1"] exampleEnv_key
      greeting_not_thinking
    by (simp add: trim_lit_hi removeThinking_def thinking_def lit_eq_iff)
qed

text \<open>
  C3, amended. However the request settles (the \<open>fetch\<close> rejects, or it resolves with any
  status and body), \<open>isProcessing\<close> is false afterwards and the transcript is the one of
  that moment without its \<open>Thinking...\<close> entries, followed by one new assistant message.
  That last message is the only one that can carry the sentinel, and it does exactly when
  the request succeeded with the reply text \<open>Thinking...\<close>.
\<close>

theorem settled_transcript:
  "\<not> isProcessing (fst (settle env tid outcome s))
   \<and> messages (fst (settle env tid outcome s)) = removeThinking (messages s) @ [replyOf env outcome]
   \<and> (\<forall>m \<in> set (removeThinking (messages s)). content m \<noteq> lit ''Thinking...'')
   \<and> role (replyOf env outcome) = Assistant
   \<and> (content (replyOf env outcome) = lit ''Thinking...'' \<longleftrightarrow>
        (\<exists>status b. outcome = Responded status b \<and>
           afterFetch env status b = Inr (lit ''Thinking...'')))"
  using settle_isProcessing [of env tid outcome s] settle_messages [of env tid outcome s]
    replyOf_role [of env outcome] replyOf_thinking_iff [of env outcome]
    removeThinking_clean [of _ "messages s"]
  unfolding thinking_def by blast

theorem settled_transcript_witness:
  "\<not> isProcessing (fst (settle exampleEnv (IdNumber 1)
        (Rejected (ErrorObject (lit ''Failed to fetch''))) afterSubmit))
   \<and> messages (fst (settle exampleEnv (IdNumber 1)
        (Rejected (ErrorObject (lit ''Failed to fetch''))) afterSubmit)) =
       [greeting, \<lparr>role = User, content = lit ''hi''\<rparr>,
        \<lparr>role = Assistant, content =
           lit ''Network error. Please check your internet connection and try again. Please try again or rephrase your question.''\<rparr>]"
proof -
  have "classify (ErrorObject (lit ''Failed to fetch'')) =
          lit ''Network error. Please check your internet connection and try again.''"
    by (simp add: classify_def str_includes_lit)
  then have "replyOf exampleEnv (Rejected (ErrorObject (lit ''Failed to fetch''))) =
      \<lparr>role = Assistant, content =
           lit ''Network error. Please check your internet connection and try again. Please try again or rephrase your question.''\<rparr>"
    by (simp add: replyOf_def lit_append [symmetric])
  then show ?thesis
    using settled_transcript [of exampleEnv "IdNumber 1"
        "Rejected (ErrorObject (lit ''Failed to fetch''))" afterSubmit]
    by (simp add: removeThinking_afterSubmit)
qed

text \<open>
  C4, as the spec states it, fails on its general part: a reply text that is not empty but
  consists of white space only (here one space) is rejected by the check
  \<open>aiResponse.trim() === ""\<close>, and the transcript ends with the error text instead.
\<close>

theorem blank_reply_is_reported_as_error:
  "lit '' '' \<noteq> []
   \<and> messages (fst (settle exampleEnv (IdNumber 1) (Responded 200 (successBody (lit '' '')))
        afterSubmit)) =
     [greeting, \<lparr>role = User, content = lit ''hi''\<rparr>,
      \<lparr>role = Assistant, content =
         lit ''Error: Empty response from AI Please try again or rephrase your question.''\<rparr>]"
proof -
  have "afterFetch exampleEnv 200 (successBody (lit '' '')) = Inl emptyResponse"
    by (simp add: afterFetch_def successBody_def aiResponseOf_def ok_def truthy_def lit_eq_Nil_iff
        trim_lit_space)
  moreover have "classify emptyResponse = lit ''Error: Empty response from AI''"
    unfolding emptyResponse_def by (subst classify_plain) (simp_all add: lit_append [symmetric])
  ultimately have "replyOf exampleEnv (Responded 200 (successBody (lit '' ''))) =
      \<lparr>role = Assistant, content =
         lit ''Error: Empty response from AI Please try again or rephrase your question.''\<rparr>"
    by (simp add: replyOf_def lit_append [symmetric])
  then show ?thesis
    by (simp add: settle_messages removeThinking_afterSubmit lit_eq_Nil_iff)
qed

text \<open>
  C4, amended. For a response with a 2xx status whose body is an object with one choice,
  whose message has a text that is not empty after trimming white space, the settlement
  appends exactly one assistant message, with the text as it came (not trimmed), to the
  transcript without its placeholder; so that message is the last entry. The body
  \<open>{choices:[{message:{content:"Hello"}}]}\<close> is the instance of the witness.
\<close>

theorem wellformed_reply_is_appended:
  assumes "ok status"
    and "map_of kvs (lit ''choices'') = Some (JArray [JObject ckvs])"
    and "map_of ckvs (lit ''message'') = Some (JObject mkvs)"
    and "map_of mkvs (lit ''content'') = Some (JString t)"
    and "trim t \<noteq> []"
  shows "messages (fst (settle env tid (Responded status (BodyText raw (Inr (JObject kvs)))) s)) =
           removeThinking (messages s) @ [\<lparr>role = Assistant, content = t\<rparr>]
         \<and> last (messages (fst (settle env tid
               (Responded status (BodyText raw (Inr (JObject kvs)))) s))) =
             \<lparr>role = Assistant, content = t\<rparr>"
proof -
  have "afterFetch env status (BodyText raw (Inr (JObject kvs))) = Inr t"
    using assms by (simp add: afterFetch_def aiResponseOf_wellformed)
  then have "replyOf env (Responded status (BodyText raw (Inr (JObject kvs)))) =
      \<lparr>role = Assistant, content = t\<rparr>"
    by (simp add: replyOf_def)
  then show ?thesis by (simp add: settle_messages)
qed

theorem wellformed_reply_is_appended_witness:
  "ok 200 \<and> trim (lit ''Hello'') \<noteq> []
   \<and> successBody (lit ''Hello'') =
       BodyText (lit ''{\"choices\":[{\"message\":{\"content\":\"Hello\"}}]}'')
         (Inr (JObject [(lit ''choices'',
            JArray [JObject [(lit ''message'',
              JObject [(lit ''content'', JString (lit ''Hello''))])]])]))
   \<and> messages (fst (settle exampleEnv (IdNumber 1) (Responded 200 (successBody (lit ''Hello'')))
        afterSubmit)) =
       [greeting, \<lparr>role = User, content = lit ''hi''\<rparr>,
        \<lparr>role = Assistant, content = lit ''Hello''\<rparr>]
   \<and> last (messages (fst (settle exampleEnv (IdNumber 1)
        (Responded 200 (successBody (lit ''Hello''))) afterSubmit))) =
       \<lparr>role = Assistant, content = lit ''Hello''\<rparr>"
proof -
  have a: "ok 200" by (simp add: ok_def)
  have b: "trim (lit ''Hello'') \<noteq> []" by (simp add: trim_lit_Hello lit_eq_Nil_iff)
  have c: "successBody (lit ''Hello'') =
     BodyText (lit ''{\"choices\":[{\"message\":{\"content\":\"Hello\"}}]}'')
       (Inr (JObject [(lit ''choices'',
          JArray [JObject [(lit ''message'',
            JObject [(lit ''content'', JString (lit ''Hello''))])]])]))"
    by (simp add: successBody_def lit_append [symmetric])
  show ?thesis
    using a b c
      wellformed_reply_is_appended [OF a _ _ _ b,
        of "[(lit ''choices'', JArray [JObject [(lit ''message'',
               JObject [(lit ''content'', JString (lit ''Hello''))])]])]"
           "[(lit ''message'', JObject [(lit ''content'', JString (lit ''Hello''))])]"
           "[(lit ''content'', JString (lit ''Hello''))]"
           exampleEnv "IdNumber 1" "lit ''{\"choices\":[{\"message\":{\"content\":\"Hello\"}}]}''"
           afterSubmit]
    by (simp add: removeThinking_afterSubmit)
qed

text \<open>
  C5. The spec asks that a response with status 429 ends the transcript with the rate-limit
  text whatever its body holds. The code decides by searching the thrown message for
  \<open>429\<close>, and the status is part of that message only when the body is not JSON. At the
  JSON body \<open>{"error":{"message":"Too many requests"}}\<close> the code shows the generic error
  text, which does not contain the rate-limit text.
\<close>

theorem rate_limit_with_json_body:
  "messages (fst (settle env tid (Responded 429 rateLimitBody) s)) =
     removeThinking (messages s) @
       [\<lparr>role = Assistant, content =
           lit ''Error: Too many requests Please try again or rephrase your question.''\<rparr>]
   \<and> str_includes (lit ''Error: Too many requests Please try again or rephrase your question.'')
         (lit ''Rate limit exceeded. Please wait a moment and try again.'') = False"
proof -
  have "errorMessageOf (JObject [(lit ''error'',
          JObject [(lit ''message'', JString (lit ''Too many requests''))])])
          = Some (JString (lit ''Too many requests''))"
    by (simp add: errorMessageOf_def orElse_def truthy_def lit_eq_Nil_iff)
  then have "afterFetch env 429 rateLimitBody = Inl (ErrorObject (lit ''Too many requests''))"
    by (simp add: afterFetch_def ok_def notOk_def rateLimitBody_def newError_def)
  moreover have "classify (ErrorObject (lit ''Too many requests'')) = lit ''Error: Too many requests''"
    by (subst classify_plain) (simp_all add: lit_append [symmetric])
  ultimately have "replyOf env (Responded 429 rateLimitBody) =
      \<lparr>role = Assistant, content =
           lit ''Error: Too many requests Please try again or rephrase your question.''\<rparr>"
    by (simp add: replyOf_def lit_append [symmetric])
  then show ?thesis
    by (simp add: settle_messages str_includes_lit)
qed

text \<open>
  What the code does reach with a 429: a body that is not JSON puts the status into the
  thrown message, and the \<open>catch\<close> block then shows the rate-limit text.
\<close>

lemma rate_limit_with_plain_body:
  "messages (fst (settle env tid
      (Responded 429 (BodyText (lit ''slow down'') (Inl syntaxError))) s)) =
     removeThinking (messages s) @
       [\<lparr>role = Assistant, content =
           lit ''Rate limit exceeded. Please wait a moment and try again. Please try again or rephrase your question.''\<rparr>]"
proof -
  have "httpMessage 429 (lit ''slow down'') = lit ''HTTP 429: slow down''"
    by (simp add: httpMessage_def lit_def)
  then have "afterFetch env 429 (BodyText (lit ''slow down'') (Inl syntaxError)) =
      Inl (ErrorObject (lit ''HTTP 429: slow down''))"
    by (simp add: afterFetch_def ok_def notOk_def newError_def)
  moreover have "classify (ErrorObject (lit ''HTTP 429: slow down'')) =
      lit ''Rate limit exceeded. Please wait a moment and try again.''"
    by (simp add: classify_def str_includes_lit)
  ultimately have "replyOf env (Responded 429 (BodyText (lit ''slow down'') (Inl syntaxError))) =
      \<lparr>role = Assistant, content =
           lit ''Rate limit exceeded. Please wait a moment and try again. Please try again or rephrase your question.''\<rparr>"
    by (simp add: replyOf_def lit_append [symmetric])
  then show ?thesis by (simp add: settle_messages)
qed

text \<open>
  C6. The spec asks that every pointer move of a drag sets the height to
  \<open>clamp(h + (startY - y), 200, 600)\<close>. The \<open>handleMouseMove\<close> that \<open>handleMouseDown\<close>
  registers belongs to the render in which the drag starts, where \<open>isResizing\<close> is still
  false, so its guard \<open>if (!isResizing) return\<close> returns on every move. From the mounted,
  expanded panel of height 400, pressing at \<open>clientY = 300\<close> and moving to \<open>250\<close> leaves the
  height at 400, where the claim says 450.
\<close>

theorem drag_does_not_resize:
  "chatHeight (run env (mount True) [MouseDown 300, MouseMove 250]) = 400
   \<and> max 200 (min 600 (chatHeight (mount True) + (300 - 250))) = (450 :: int)"
  by (simp add: mount_def visibilityEffect_def initial_def handleMouseDown_def mouseMove_def
      handleMouseMove_def)

text \<open>
  The same for every drag that starts at rest, and what a handler computes when the
  render it belongs to did have \<open>isResizing\<close> set: the clamped height of the claim.
\<close>

lemma drag_from_rest_never_resizes:
  assumes "listeners s = []" and "\<not> isResizing s"
  shows "chatHeight (run env s (MouseDown y0 # map MouseMove ys)) = chatHeight s"
proof -
  have "\<And>s. listeners s = [False] \<Longrightarrow>
          chatHeight (run env s (map MouseMove ys)) = chatHeight s"
    subgoal for s
      by (induction ys arbitrary: s) (simp_all add: mouseMove_def handleMouseMove_def)
    done
  then show ?thesis using assms by (simp add: handleMouseDown_def)
qed

lemma handleMouseMove_clamps:
  "chatHeight (handleMouseMove True y s) =
     max 200 (min 600 (startHeightRef s + (startYRef s - y)))
   \<and> 200 \<le> chatHeight (handleMouseMove True y s)
   \<and> chatHeight (handleMouseMove True y s) \<le> 600"
  by (simp add: handleMouseMove_def Let_def)

text \<open>
  A drag that starts while \<open>isResizing\<close> is already set (a second button pressed on the
  handle during a drag, or a release that never arrived) registers a handler that does
  resize, by the formula of the claim.
\<close>

lemma drag_with_flag_set_resizes:
  assumes "listeners s = []" and "isResizing s"
  shows "chatHeight (run env s [MouseDown y0, MouseMove y]) =
           max 200 (min 600 (chatHeight s + (y0 - y)))"
  using assms by (simp add: handleMouseDown_def mouseMove_def handleMouseMove_def Let_def)

text \<open>The part of the claim that holds of the code: the height never leaves [200, 600].\<close>

lemma fold_handleMouseMove_height:
  assumes "200 \<le> chatHeight s \<and> chatHeight s \<le> 600"
  shows "200 \<le> chatHeight (fold (\<lambda>captured. handleMouseMove captured y) cs s)
         \<and> chatHeight (fold (\<lambda>captured. handleMouseMove captured y) cs s) \<le> 600"
  using assms by (induction cs arbitrary: s) (simp_all add: handleMouseMove_def Let_def)

lemma step_height:
  assumes "200 \<le> chatHeight s \<and> chatHeight s \<le> 600"
  shows "200 \<le> chatHeight (fst (step env s ev)) \<and> chatHeight (fst (step env s ev)) \<le> 600"
proof (cases ev)
  case (Submit tid)
  then show ?thesis using assms by (simp add: handleSubmit_def Let_def)
next
  case (Settled outcome)
  then show ?thesis
    using assms
    by (cases "inflight s"; cases outcome)
       (simp_all add: settle_def catchBlock_def Let_def case_prod_unfold split: sum.splits)
next
  case (MouseMove y)
  then show ?thesis using fold_handleMouseMove_height [OF assms] by (simp add: mouseMove_def)
qed (insert assms, simp_all add: render_def visibilityEffect_def handleMouseDown_def mouseUp_eq)

lemma height_stays_in_range:
  "200 \<le> chatHeight (run env (mount visible) events)
   \<and> chatHeight (run env (mount visible) events) \<le> 600"
proof -
  have "\<And>s. 200 \<le> chatHeight s \<and> chatHeight s \<le> 600 \<Longrightarrow>
          200 \<le> chatHeight (run env s events) \<and> chatHeight (run env s events) \<le> 600"
  proof (induction events)
    case Nil
    then show ?case by simp
  next
    case (Cons ev events)
    from Cons.IH [OF step_height [OF Cons.prems, of env ev]] show ?case by simp
  qed
  then show ?thesis by (simp add: mount_def visibilityEffect_def initial_def)
qed

text \<open>
  C7. Every request \<open>handleSubmit\<close> sends carries exactly two chat messages: the system
  message, which is the instruction template of the variant (the text of the source before
  \<open>${ocrText}\<close>, which opens with \<open>You are a\<close>, and the text after it, which is not empty)
  with the source text in between as it is, and the user message, which is the trimmed
  input. With them go the one model identifier, and the temperature and the token limit of
  the variant, which lie between 0.5 and 0.9 and between 1000 and 2000. They are constants
  of the variant: neither the input nor the state takes part in them.
\<close>

theorem request_body_shape:
  assumes "Fetch r \<in> set (snd (handleSubmit env tid s))"
  shows "body r =
      \<lparr>body_model = lit ''meta-llama/llama-4-scout-17b-16e-instruct'',
       body_messages =
         [ChatMessage (lit ''system'')
            ((case variant env of
                Part000 \<Rightarrow> prompt_before_Part000 | ChatBot \<Rightarrow> prompt_before_ChatBot
              | Part001a \<Rightarrow> prompt_before_Part001a | Part001b \<Rightarrow> prompt_before_Part001b)
             @ ocrText env @
             (case variant env of
                Part000 \<Rightarrow> prompt_after_Part000 | ChatBot \<Rightarrow> prompt_after_ChatBot
              | Part001a \<Rightarrow> prompt_after_Part001a | Part001b \<Rightarrow> prompt_after_Part001b)),
          ChatMessage (lit ''user'') (trim (input s))],
       body_temperature =
         (case variant env of
            Part000 \<Rightarrow> 0.5 | ChatBot \<Rightarrow> 0.5 | Part001a \<Rightarrow> 0.6 | Part001b \<Rightarrow> 0.9),
       body_max_tokens =
         (case variant env of
            Part000 \<Rightarrow> 2000 | ChatBot \<Rightarrow> 2000 | Part001a \<Rightarrow> 2000 | Part001b \<Rightarrow> 1000)\<rparr>
    \<and> startsWith
         (case variant env of
            Part000 \<Rightarrow> prompt_before_Part000 | ChatBot \<Rightarrow> prompt_before_ChatBot
          | Part001a \<Rightarrow> prompt_before_Part001a | Part001b \<Rightarrow> prompt_before_Part001b)
         (lit ''You are a'')
    \<and> (case variant env of
          Part000 \<Rightarrow> prompt_after_Part000 | ChatBot \<Rightarrow> prompt_after_ChatBot
        | Part001a \<Rightarrow> prompt_after_Part001a | Part001b \<Rightarrow> prompt_after_Part001b) \<noteq> []
    \<and> 0.5 \<le> body_temperature (body r) \<and> body_temperature (body r) \<le> 0.9
    \<and> 1000 \<le> body_max_tokens (body r) \<and> body_max_tokens (body r) \<le> 2000
    \<and> length (body_messages (body r)) = 2"
proof -
  have r: "r = request env (trim (input s))"
    using assms by (auto simp add: handleSubmit_def Let_def split: if_splits)
  show ?thesis
    unfolding r
    by (cases "variant env")
       (simp_all add: request_def requestBody_def prompt_before_instructs prompt_after_nonempty)
qed

theorem request_body_shape_witness:
  "Fetch (request exampleEnv (lit ''hi'')) \<in>
       set (snd (handleSubmit exampleEnv (IdNumber 1) ((mount True)\<lparr>input := lit ''hi''\<rparr>)))
   \<and> body (request exampleEnv (lit ''hi'')) =
          \<lparr>body_model = lit ''meta-llama/llama-4-scout-17b-16e-instruct'',
           body_messages =
             [ChatMessage (lit ''system'')
                (prompt_before_Part000 @ lit ''Cells divide by mitosis.'' @ prompt_after_Part000),
              ChatMessage (lit ''user'') (lit ''hi'')],
           body_temperature = 0.5,
           body_max_tokens = 2000\<rparr>
   \<and> startsWith prompt_before_Part000 (lit ''You are a'')
   \<and> prompt_after_Part000 \<noteq> []"
proof -
  let ?s = "(mount True)\<lparr>input := lit ''hi''\<rparr>"
  have v: "variant exampleEnv = Part000" "ocrText exampleEnv = lit ''Cells divide by mitosis.''"
    by (simp_all add: exampleEnv_def)
  have a: "trim (input ?s) \<noteq> []" by (simp add: trim_lit_hi lit_eq_Nil_iff)
  have b: "\<not> isProcessing ?s" by (simp add: mount_idle)
  have f: "Fetch (request exampleEnv (lit ''hi'')) \<in>
      set (snd (handleSubmit exampleEnv (IdNumber 1) ?s))"
    using handleSubmit_accepted [OF a b exampleEnv_key, of "IdNumber 1"] by (simp add: trim_lit_hi)
  show ?thesis
    using f request_body_shape [OF f] by (simp add: v trim_lit_hi)
qed

text \<open>How each event changes the transcript: it appends, and only a settlement filters.\<close>

lemma fold_handleMouseMove_messages:
  "messages (fold (\<lambda>captured. handleMouseMove captured y) cs s) = messages s"
  by (induction cs arbitrary: s) (simp_all add: handleMouseMove_def Let_def)

lemma step_messages:
  "\<exists>added. messages (fst (step env s ev)) =
     (if (\<exists>outcome. ev = Settled outcome) \<and> inflight s \<noteq> []
      then removeThinking (messages s) else messages s) @ added"
proof (cases ev)
  case (Submit tid)
  then show ?thesis using handleSubmit_messages [of env tid s] by simp
next
  case (Settled outcome)
  then show ?thesis by (cases "inflight s") (simp_all add: settle_messages)
next
  case (MouseMove y)
  then show ?thesis by (simp add: mouseMove_def fold_handleMouseMove_messages)
qed (simp_all add: render_def visibilityEffect_def handleMouseDown_def mouseUp_eq)

lemma step_keeps_greeting:
  assumes "messages s = greeting # rest"
  shows "\<exists>rest'. messages (fst (step env s ev)) = greeting # rest'"
  using step_messages [of env s ev] assms
  by (auto simp add: removeThinking_greeting split: if_splits)

lemma run_keeps_greeting:
  "messages s = greeting # rest \<Longrightarrow> \<exists>rest'. messages (run env s events) = greeting # rest'"
proof (induction events arbitrary: s rest)
  case Nil
  then show ?case by simp
next
  case (Cons ev events)
  from step_keeps_greeting [OF Cons.prems, of env ev]
  obtain rest' where "messages (fst (step env s ev)) = greeting # rest'" by blast
  from Cons.IH [OF this] show ?case by simp
qed

text \<open>
  C8. In every state the component reaches from its mount, by any sequence of events, the
  transcript is not empty and its entry 0 is the seeded greeting. Every event leaves the
  transcript it finds as a prefix of the new one, except the settlement of a pending
  request, which first drops the entries whose content is \<open>Thinking...\<close> and nothing else.
\<close>

theorem greeting_is_never_removed:
  "messages (run env (mount visible) events) \<noteq> []
   \<and> messages (run env (mount visible) events) ! 0 = greeting
   \<and> (\<exists>added. messages (fst (step env s ev)) =
        (if (\<exists>outcome. ev = Settled outcome) \<and> inflight s \<noteq> []
         then filter (\<lambda>m. content m \<noteq> lit ''Thinking...'') (messages s) else messages s) @ added)"
proof -
  obtain rest where "messages (run env (mount visible) events) = greeting # rest"
    using run_keeps_greeting [OF mount_messages, of env visible events] by blast
  then have first: "messages (run env (mount visible) events) \<noteq> []
      \<and> messages (run env (mount visible) events) ! 0 = greeting"
    by simp
  have removals: "\<exists>added. messages (fst (step env s ev)) =
        (if (\<exists>outcome. ev = Settled outcome) \<and> inflight s \<noteq> []
         then filter (\<lambda>m. content m \<noteq> lit ''Thinking...'') (messages s) else messages s) @ added"
    using step_messages [of env s ev] unfolding removeThinking_def thinking_def .
  from first removals show ?thesis by (intro conjI) (elim conjE, assumption)+
qed

text \<open>
  C9. When the parent renders the component with \<open>isVisible\<close> true after false, the panel
  is expanded afterwards. That is the only automatic expansion: a render that repeats the
  flag changes nothing, so after a minimize the panel stays collapsed while the flag stays
  true, and an event that turns \<open>isExpanded\<close> from false to true is either the click on
  the collapsed icon or such a render. Minimize sets \<open>isExpanded\<close> to false, leaves the
  rest of the state (the flag included) as it is and calls no callback.
\<close>

theorem auto_expand_and_minimize:
  "(\<not> isVisible s \<longrightarrow>
      isExpanded (fst (step env s (ParentRender True))) \<and>
      isVisible (fst (step env s (ParentRender True))) \<and>
      \<not> isExpanded (run env s [ParentRender True, ClickMinimize, ParentRender True]) \<and>
      isVisible (run env s [ParentRender True, ClickMinimize, ParentRender True]))
   \<and> step env s (ParentRender (isVisible s)) = (s, [])
   \<and> step env s ClickMinimize = (s\<lparr>isExpanded := False\<rparr>, [])
   \<and> (\<not> isExpanded s \<and> isExpanded (fst (step env s ev)) \<longrightarrow>
        ev = ClickExpand \<or> (ev = ParentRender True \<and> \<not> isVisible s))"
proof -
  have expand: "\<not> isExpanded s \<and> isExpanded (fst (step env s ev)) \<longrightarrow>
        ev = ClickExpand \<or> (ev = ParentRender True \<and> \<not> isVisible s)"
  proof (cases ev)
    case (Submit tid)
    then show ?thesis by (simp add: handleSubmit_def Let_def)
  next
    case (Settled outcome)
    then show ?thesis
      by (cases "inflight s"; cases outcome)
         (simp_all add: settle_def catchBlock_def Let_def case_prod_unfold split: sum.splits)
  next
    case (MouseMove y)
    have "\<And>cs s. isExpanded (fold (\<lambda>captured. handleMouseMove captured y) cs s) = isExpanded s"
      subgoal for cs s by (induction cs arbitrary: s) (simp_all add: handleMouseMove_def Let_def)
      done
    with MouseMove show ?thesis by (simp add: mouseMove_def)
  qed (auto simp add: render_def visibilityEffect_def handleMouseDown_def mouseUp_eq)
  show ?thesis
    using expand by (simp add: render_def visibilityEffect_def)
qed

theorem auto_expand_and_minimize_witness:
  "\<not> isVisible initial
   \<and> isExpanded (fst (step exampleEnv initial (ParentRender True)))
   \<and> \<not> isExpanded (run exampleEnv initial [ParentRender True, ClickMinimize, ParentRender True])
   \<and> isVisible (run exampleEnv initial [ParentRender True, ClickMinimize, ParentRender True])
   \<and> step exampleEnv (mount True) ClickMinimize = ((mount True)\<lparr>isExpanded := False\<rparr>, [])"
  using auto_expand_and_minimize [of initial exampleEnv "ParentRender True"]
    auto_expand_and_minimize [of "mount True" exampleEnv ClickMinimize]
  by (simp add: initial_def)

text \<open>
  C10. The removal at settlement looks at the content only: the new transcript is the old
  one without every entry whose content is \<open>Thinking...\<close>, whatever its role or position,
  followed by the reply. So when the trimmed input is itself \<open>Thinking...\<close>, the user
  message that the submission appended is gone once the request settles, however it
  settles.
\<close>

theorem placeholder_removal_by_content:
  assumes "trim (input s) = lit ''Thinking...''" and "\<not> isProcessing s"
    and "keyConfigured (GROQ_API_KEY env)"
  shows "(\<forall>s' outcome'. messages (fst (settle env tid outcome' s')) =
            filter (\<lambda>m. content m \<noteq> lit ''Thinking...'') (messages s') @ [replyOf env outcome'])
    \<and> \<lparr>role = User, content = lit ''Thinking...''\<rparr> \<in> set (messages (fst (handleSubmit env tid s)))
    \<and> \<lparr>role = User, content = lit ''Thinking...''\<rparr> \<notin>
         set (messages (fst (settle env tid outcome (fst (handleSubmit env tid s)))))
    \<and> messages (fst (settle env tid outcome (fst (handleSubmit env tid s)))) =
         filter (\<lambda>m. content m \<noteq> lit ''Thinking...'') (messages s) @ [replyOf env outcome]"
proof -
  have nonempty: "trim (input s) \<noteq> []"
    using assms(1) by (simp add: lit_eq_Nil_iff)
  have general: "\<And>s' outcome'. messages (fst (settle env tid outcome' s')) =
      filter (\<lambda>m. content m \<noteq> lit ''Thinking...'') (messages s') @ [replyOf env outcome']"
    by (simp add: settle_messages removeThinking_def thinking_def)
  have sub: "messages (fst (handleSubmit env tid s)) =
      messages s @ [\<lparr>role = User, content = lit ''Thinking...''\<rparr>,
                    \<lparr>role = Assistant, content = lit ''Thinking...''\<rparr>]"
    using handleSubmit_accepted [OF nonempty assms(2,3), of tid] assms(1)
    by (simp add: thinking_def)
  have final: "messages (fst (settle env tid outcome (fst (handleSubmit env tid s)))) =
      filter (\<lambda>m. content m \<noteq> lit ''Thinking...'') (messages s) @ [replyOf env outcome]"
    by (simp add: general sub)
  have "\<lparr>role = User, content = lit ''Thinking...''\<rparr> \<noteq> replyOf env outcome"
  proof
    assume "\<lparr>role = User, content = lit ''Thinking...''\<rparr> = replyOf env outcome"
    from this [symmetric] have "role (replyOf env outcome) = User" by simp
    then show False by (simp add: replyOf_role)
  qed
  then have gone: "\<lparr>role = User, content = lit ''Thinking...''\<rparr> \<notin>
      set (messages (fst (settle env tid outcome (fst (handleSubmit env tid s)))))"
    by (simp add: final)
  show ?thesis using general sub final gone by simp
qed

theorem placeholder_removal_by_content_witness:
  "trim (input ((mount True)\<lparr>input := lit '' Thinking... ''\<rparr>)) = lit ''Thinking...''
   \<and> \<not> isProcessing ((mount True)\<lparr>input := lit '' Thinking... ''\<rparr>)
   \<and> keyConfigured (GROQ_API_KEY exampleEnv)
   \<and> messages (fst (handleSubmit exampleEnv (IdNumber 1)
        ((mount True)\<lparr>input := lit '' Thinking... ''\<rparr>))) =
       [greeting, \<lparr>role = User, content = lit ''Thinking...''\<rparr>,
        \<lparr>role = Assistant, content = lit ''Thinking...''\<rparr>]
   \<and> messages (fst (settle exampleEnv (IdNumber 1) (Responded 200 (successBody (lit ''Hello'')))
         (fst (handleSubmit exampleEnv (IdNumber 1)
            ((mount True)\<lparr>input := lit '' Thinking... ''\<rparr>))))) =
       [greeting, \<lparr>role = Assistant, content = lit ''Hello''\<rparr>]"
proof -
  let ?s = "(mount True)\<lparr>input := lit '' Thinking... ''\<rparr>"
  have a: "trim (input ?s) = lit ''Thinking...''"
    by (simp add: trim_def lit_def isWhiteSpace_def)
  have b: "\<not> isProcessing ?s" by (simp add: mount_idle)
  have m: "messages ?s = [greeting]" by (simp add: mount_messages)
  have "afterFetch exampleEnv 200 (successBody (lit ''Hello'')) = Inr (lit ''Hello'')"
    by (rule afterFetch_success) (simp_all add: ok_def trim_lit_Hello lit_eq_Nil_iff)
  then have r: "replyOf exampleEnv (Responded 200 (successBody (lit ''Hello''))) =
      \<lparr>role = Assistant, content = lit ''Hello''\<rparr>"
    by (simp add: replyOf_def)
  have sub: "messages (fst (handleSubmit exampleEnv (IdNumber 1) ?s)) =
       [greeting, \<lparr>role = User, content = lit ''Thinking...''\<rparr>,
        \<lparr>role = Assistant, content = lit ''Thinking...''\<rparr>]"
    using handleSubmit_accepted [OF _ b exampleEnv_key, of "IdNumber 1"] a m
    by (simp add: lit_eq_Nil_iff thinking_def)
  show ?thesis
    using a b exampleEnv_key sub r greeting_not_thinking
      placeholder_removal_by_content [OF a b exampleEnv_key, of "IdNumber 1"
        "Responded 200 (successBody (lit ''Hello''))"]
    by (simp add: m thinking_def)
qed

end
